theory Spec2Isabelle
  imports Main "HOL-Library.Word" "HOL-Library.Sublist"
begin

section \<open>Mirror conditions (util/conditions/v1beta2/mirror.go)\<close>

subsection \<open>Conditions\<close>

text \<open>
  \<open>metav1.ConditionStatus\<close> is a Go string type; the builder compares it with the empty
  string, so it is kept as a string. The three constants are the ones of the Kubernetes
  API machinery.
\<close>

type_synonym ConditionStatus = string

definition ConditionTrue :: ConditionStatus where
  "ConditionTrue = ''True''"

definition ConditionFalse :: ConditionStatus where
  "ConditionFalse = ''False''"

definition ConditionUnknown :: ConditionStatus where
  "ConditionUnknown = ''Unknown''"

text \<open>
  \<open>metav1.Time\<close>: an instant, counted from the zero value \<open>Time{}\<close>. The builder only
  copies it or leaves it at the zero value.
\<close>

datatype Time = Time int

definition zeroTime :: Time where
  "zeroTime = Time 0"

text \<open>\<open>metav1.Condition\<close>, fields in the order of the Go struct; \<open>ObservedGeneration\<close> is an int64.\<close>

record Condition =
  Type :: string
  Status :: ConditionStatus
  ObservedGeneration :: "64 word"
  LastTransitionTime :: Time
  Reason :: string
  Message :: string

definition NotYetReportedReason :: string where
  "NotYetReportedReason = ''NotYetReported''"

subsection \<open>Mirror options\<close>

record MirrorOptions =
  targetConditionType :: string
  fallbackStatus :: ConditionStatus
  fallbackReason :: string
  fallbackMessage :: string

text \<open>
  \<open>MirrorOption\<close> is the interface with the single method \<open>ApplyToMirror(*MirrorOptions)\<close>.
  A directive is modelled by what that method does to the options it is pointed at. The
  implementations are not in mirror.go and are taken to return. A list of directives
  holds directives that are present; lists whose entries may be nil interface values are
  treated further below.
\<close>

type_synonym MirrorOption = "MirrorOptions \<Rightarrow> MirrorOptions"

text \<open>
  \<open>ApplyOptions\<close> has a pointer receiver, mutates the options in place and returns the
  receiver. Pointers to \<open>MirrorOptions\<close> are addresses into a store.
\<close>

type_synonym ref = nat

type_synonym store = "ref \<Rightarrow> MirrorOptions"

definition ApplyToMirror :: "MirrorOption \<Rightarrow> store \<Rightarrow> ref \<Rightarrow> store" where
  "ApplyToMirror opt s this = s(this := opt (s this))"

fun ApplyOptions :: "store \<Rightarrow> ref \<Rightarrow> MirrorOption list \<Rightarrow> store \<times> ref" where
  "ApplyOptions s this [] = (s, this)"
| "ApplyOptions s this (opt # opts) = ApplyOptions (ApplyToMirror opt s this) this opts"

text \<open>
  Modelled from the spec: the directive that overrides \<open>targetConditionType\<close>. Its code is
  not in mirror.go; the spec (4.1) says that it overrides the target condition type.
\<close>

definition TargetConditionType :: "string \<Rightarrow> MirrorOption" where
  "TargetConditionType t opts = opts\<lparr>targetConditionType := t\<rparr>"

text \<open>
  Modelled from the spec: the directive that sets the fallback condition. Its code is not
  in mirror.go; the spec (4.1) says that it sets the three fallback fields together.
\<close>

definition FallbackCondition :: "ConditionStatus \<Rightarrow> string \<Rightarrow> string \<Rightarrow> MirrorOption" where
  "FallbackCondition status reason message opts =
     opts\<lparr>fallbackStatus := status, fallbackReason := reason, fallbackMessage := message\<rparr>"

subsection \<open>strings.TrimSpace\<close>

text \<open>
  Go strings are byte sequences holding UTF-8, and \<open>strings.TrimSpace\<close> removes the leading
  and trailing runes for which \<open>unicode.IsSpace\<close> holds. \<open>White_Space\<close> lists those code
  points, \<open>utf8\<close> encodes one of them (all are below U+10000), and a string starts (ends)
  with a white space rune exactly when it starts (ends) with one of the encodings.
\<close>

definition White_Space :: "nat list" where
  "White_Space =
     [0x09, 0x0A, 0x0B, 0x0C, 0x0D, 0x20, 0x85, 0xA0, 0x1680,
      0x2000, 0x2001, 0x2002, 0x2003, 0x2004, 0x2005, 0x2006, 0x2007, 0x2008, 0x2009, 0x200A,
      0x2028, 0x2029, 0x202F, 0x205F, 0x3000]"

definition utf8 :: "nat \<Rightarrow> string" where
  "utf8 r =
     (if r < 0x80 then [char_of r]
      else if r < 0x800 then [char_of (0xC0 + r div 64), char_of (0x80 + r mod 64)]
      else [char_of (0xE0 + r div 4096), char_of (0x80 + r div 64 mod 64),
            char_of (0x80 + r mod 64)])"

definition spaceWidth :: "string \<Rightarrow> nat" where
  "spaceWidth s =
     (case find (\<lambda>w. prefix w s) (map utf8 White_Space) of
        None \<Rightarrow> 0
      | Some w \<Rightarrow> length w)"

definition lastSpaceWidth :: "string \<Rightarrow> nat" where
  "lastSpaceWidth s =
     (case find (\<lambda>w. suffix w s) (map utf8 White_Space) of
        None \<Rightarrow> 0
      | Some w \<Rightarrow> length w)"

function TrimLeftSpace :: "string \<Rightarrow> string" where
  "TrimLeftSpace s =
     (if spaceWidth s = 0 then s else TrimLeftSpace (drop (spaceWidth s) s))"
  by pat_completeness auto
termination
proof (relation "measure length")
  show "wf (measure length)" by simp
next
  fix s :: string
  assume w: "spaceWidth s \<noteq> 0"
  have "find (\<lambda>w. w = []) (map utf8 rs) = None" for rs
    by (induction rs) (simp_all add: utf8_def)
  then have "spaceWidth [] = 0"
    by (simp add: spaceWidth_def)
  with w have "s \<noteq> []" by auto
  with w show "(drop (spaceWidth s) s, s) \<in> measure length" by simp
qed

function TrimRightSpace :: "string \<Rightarrow> string" where
  "TrimRightSpace s =
     (if lastSpaceWidth s = 0 then s
      else TrimRightSpace (take (length s - lastSpaceWidth s) s))"
  by pat_completeness auto
termination
proof (relation "measure length")
  show "wf (measure length)" by simp
next
  fix s :: string
  assume w: "lastSpaceWidth s \<noteq> 0"
  have "find (\<lambda>w. w = []) (map utf8 rs) = None" for rs
    by (induction rs) (simp_all add: utf8_def)
  then have "lastSpaceWidth [] = 0"
    by (simp add: lastSpaceWidth_def)
  with w have "s \<noteq> []" by auto
  with w show "(take (length s - lastSpaceWidth s) s, s) \<in> measure length" by simp
qed

definition TrimSpace :: "string \<Rightarrow> string" where
  "TrimSpace s = TrimRightSpace (TrimLeftSpace s)"

subsection \<open>The mirror builder\<close>

text \<open>
  \<open>getConditionOwnerInfo\<close> is not in mirror.go; the builder only formats its result with
  \<open>%s\<close>, so it is a parameter that gives that text. The \<open>MirrorOptions\<close> the builder
  allocates never leaves it: it lives at address 0 of a store of the builder's own.
  A nil \<open>condition\<close> is \<open>None\<close>.
\<close>

definition zeroMirrorOptions :: MirrorOptions where
  "zeroMirrorOptions =
     \<lparr>targetConditionType = [], fallbackStatus = [], fallbackReason = [], fallbackMessage = []\<rparr>"

text \<open>The options the builder reads: its initial options after the directives, in order.\<close>

abbreviation mirrorOptAfter :: "string \<Rightarrow> MirrorOption list \<Rightarrow> MirrorOptions" where
  "mirrorOptAfter sourceConditionType opts \<equiv>
     fold (\<lambda>opt m. opt m) opts (zeroMirrorOptions\<lparr>targetConditionType := sourceConditionType\<rparr>)"

definition newMirrorCondition ::
  "('obj \<Rightarrow> string) \<Rightarrow> 'obj \<Rightarrow> Condition option \<Rightarrow> string \<Rightarrow> MirrorOption list \<Rightarrow> Condition" where
  "newMirrorCondition getConditionOwnerInfo sourceObj condition sourceConditionType opts =
     (let mirrorOpt = (0 :: ref);
          s = (\<lambda>_. zeroMirrorOptions)
                (mirrorOpt := zeroMirrorOptions\<lparr>targetConditionType := sourceConditionType\<rparr>);
          s' = fst (ApplyOptions s mirrorOpt opts);
          conditionOwner = getConditionOwnerInfo sourceObj
      in case condition of
           Some c \<Rightarrow>
             \<lparr>Type = targetConditionType (s' mirrorOpt),
              Status = Status c,
              ObservedGeneration = 0,
              LastTransitionTime = LastTransitionTime c,
              Reason = Reason c,
              Message = TrimSpace (Message c @ '' (from '' @ conditionOwner @ '')'')\<rparr>
         | None \<Rightarrow>
             if fallbackStatus (s' mirrorOpt) \<noteq> [] then
               \<lparr>Type = targetConditionType (s' mirrorOpt),
                Status = fallbackStatus (s' mirrorOpt),
                ObservedGeneration = 0,
                LastTransitionTime = zeroTime,
                Reason = fallbackReason (s' mirrorOpt),
                Message = fallbackMessage (s' mirrorOpt)\<rparr>
             else
               \<lparr>Type = targetConditionType (s' mirrorOpt),
                Status = ConditionUnknown,
                ObservedGeneration = 0,
                LastTransitionTime = zeroTime,
                Reason = NotYetReportedReason,
                Message = ''Condition '' @ sourceConditionType @ '' not yet reported from ''
                            @ conditionOwner\<rparr>)"

text \<open>
  \<open>Get\<close>, \<open>UnstructuredGet\<close> and \<open>Set\<close> are not in mirror.go and are parameters.
  \<open>UnstructuredGet\<close> returns a Go pair (condition, error); \<open>Set\<close> writes to the target
  object, which is passed in and returned.
\<close>

definition NewMirrorCondition ::
  "('obj \<Rightarrow> string) \<Rightarrow> ('obj \<Rightarrow> string \<Rightarrow> Condition option) \<Rightarrow> 'obj \<Rightarrow> string
     \<Rightarrow> MirrorOption list \<Rightarrow> Condition" where
  "NewMirrorCondition getConditionOwnerInfo Get sourceObj sourceConditionType opts =
     (let condition = Get sourceObj sourceConditionType
      in newMirrorCondition getConditionOwnerInfo sourceObj condition sourceConditionType opts)"

definition SetMirrorCondition ::
  "('obj \<Rightarrow> string) \<Rightarrow> ('obj \<Rightarrow> string \<Rightarrow> Condition option) \<Rightarrow> ('tgt \<Rightarrow> Condition \<Rightarrow> 'tgt)
     \<Rightarrow> 'obj \<Rightarrow> 'tgt \<Rightarrow> string \<Rightarrow> MirrorOption list \<Rightarrow> 'tgt" where
  "SetMirrorCondition getConditionOwnerInfo Get SetCondition sourceObj targetObj
       sourceConditionType opts =
     (let mirrorCondition =
            NewMirrorCondition getConditionOwnerInfo Get sourceObj sourceConditionType opts
      in SetCondition targetObj mirrorCondition)"

definition SetMirrorConditionFromUnstructured ::
  "('obj \<Rightarrow> string) \<Rightarrow> ('obj \<Rightarrow> string \<Rightarrow> Condition option \<times> 'err option)
     \<Rightarrow> ('tgt \<Rightarrow> Condition \<Rightarrow> 'tgt) \<Rightarrow> 'obj \<Rightarrow> 'tgt \<Rightarrow> string \<Rightarrow> MirrorOption list
     \<Rightarrow> 'err option \<times> 'tgt" where
  "SetMirrorConditionFromUnstructured getConditionOwnerInfo UnstructuredGet SetCondition
       sourceObj targetObj sourceConditionType opts =
     (case UnstructuredGet sourceObj sourceConditionType of
        (condition, Some err) \<Rightarrow> (Some err, targetObj)
      | (condition, None) \<Rightarrow>
          (None,
           SetCondition targetObj
             (newMirrorCondition getConditionOwnerInfo sourceObj condition
                sourceConditionType opts)))"

subsection \<open>Nil directives\<close>




subsection \<open>The status helper\<close>

definition BoolToStatus :: "bool \<Rightarrow> ConditionStatus" where
  "BoolToStatus status = (if status then ConditionTrue else ConditionFalse)"

subsection \<open>Facts about the model\<close>

lemma utf8_White_Space:
  "map utf8 White_Space =
     [[CHR 0x09], [CHR 0x0A], [CHR 0x0B], [CHR 0x0C], [CHR 0x0D], [CHR 0x20],
      [CHR 0xC2, CHR 0x85], [CHR 0xC2, CHR 0xA0], [CHR 0xE1, CHR 0x9A, CHR 0x80],
      [CHR 0xE2, CHR 0x80, CHR 0x80], [CHR 0xE2, CHR 0x80, CHR 0x81],
      [CHR 0xE2, CHR 0x80, CHR 0x82], [CHR 0xE2, CHR 0x80, CHR 0x83],
      [CHR 0xE2, CHR 0x80, CHR 0x84], [CHR 0xE2, CHR 0x80, CHR 0x85],
      [CHR 0xE2, CHR 0x80, CHR 0x86], [CHR 0xE2, CHR 0x80, CHR 0x87],
      [CHR 0xE2, CHR 0x80, CHR 0x88], [CHR 0xE2, CHR 0x80, CHR 0x89],
      [CHR 0xE2, CHR 0x80, CHR 0x8A], [CHR 0xE2, CHR 0x80, CHR 0xA8],
      [CHR 0xE2, CHR 0x80, CHR 0xA9], [CHR 0xE2, CHR 0x80, CHR 0xAF],
      [CHR 0xE2, CHR 0x81, CHR 0x9F], [CHR 0xE3, CHR 0x80, CHR 0x80]]"
  by (simp add: White_Space_def utf8_def char_of_def bit_0)

text \<open>A string that neither starts nor ends with white space is left as it is.\<close>

lemma TrimSpace_ident: "spaceWidth s = 0 \<Longrightarrow> lastSpaceWidth s = 0 \<Longrightarrow> TrimSpace s = s"
  by (simp add: TrimSpace_def)

text \<open>
  A width of 0 means that no encoding of a white space rune is at that end of the string.
\<close>

lemma White_Space_not_Nil: "w \<in> set (map utf8 White_Space) \<Longrightarrow> w \<noteq> []"
  by (auto simp: utf8_def)

lemma spaceWidth_0_iff:
  "spaceWidth s = 0 \<longleftrightarrow> (\<forall>w \<in> set (map utf8 White_Space). \<not> prefix w s)"
proof (cases "find (\<lambda>w. prefix w s) (map utf8 White_Space)")
  case None
  then have "\<forall>w \<in> set (map utf8 White_Space). \<not> prefix w s"
    by (simp only: find_None_iff) blast
  with None show ?thesis
    by (simp only: spaceWidth_def option.case) blast
next
  case (Some w)
  then have "w \<in> set (map utf8 White_Space)" and "prefix w s"
    by (auto simp: find_Some_iff)
  with Some show ?thesis
    using White_Space_not_Nil [of w] by (auto simp: spaceWidth_def)
qed

lemma lastSpaceWidth_0_iff:
  "lastSpaceWidth s = 0 \<longleftrightarrow> (\<forall>w \<in> set (map utf8 White_Space). \<not> suffix w s)"
proof (cases "find (\<lambda>w. suffix w s) (map utf8 White_Space)")
  case None
  then have "\<forall>w \<in> set (map utf8 White_Space). \<not> suffix w s"
    by (simp only: find_None_iff) blast
  with None show ?thesis
    by (simp only: lastSpaceWidth_def option.case) blast
next
  case (Some w)
  then have "w \<in> set (map utf8 White_Space)" and "suffix w s"
    by (auto simp: find_Some_iff)
  with Some show ?thesis
    using White_Space_not_Nil [of w] by (auto simp: lastSpaceWidth_def)
qed

text \<open>
  What \<open>TrimSpace\<close> returns is a segment of its argument with no white space rune at
  either end.
\<close>

lemma spaceWidth_TrimLeftSpace: "spaceWidth (TrimLeftSpace s) = 0"
  by (induction s rule: TrimLeftSpace.induct) (subst TrimLeftSpace.simps, simp)

lemma lastSpaceWidth_TrimRightSpace: "lastSpaceWidth (TrimRightSpace s) = 0"
  by (induction s rule: TrimRightSpace.induct) (subst TrimRightSpace.simps, simp)

lemma suffix_TrimLeftSpace: "suffix (TrimLeftSpace s) s"
proof (induction s rule: TrimLeftSpace.induct)
  case (1 s)
  show ?case
  proof (cases "spaceWidth s = 0")
    case True
    then show ?thesis by simp
  next
    case False
    with 1 have "suffix (TrimLeftSpace (drop (spaceWidth s) s)) (drop (spaceWidth s) s)"
      by simp
    then have "suffix (TrimLeftSpace (drop (spaceWidth s) s)) s"
      using suffix_drop suffix_order.trans by blast
    with False show ?thesis
      by (subst TrimLeftSpace.simps) simp
  qed
qed

lemma prefix_TrimRightSpace: "prefix (TrimRightSpace s) s"
proof (induction s rule: TrimRightSpace.induct)
  case (1 s)
  show ?case
  proof (cases "lastSpaceWidth s = 0")
    case True
    then show ?thesis by simp
  next
    case False
    with 1 have "prefix (TrimRightSpace (take (length s - lastSpaceWidth s) s))
                   (take (length s - lastSpaceWidth s) s)"
      by simp
    then have "prefix (TrimRightSpace (take (length s - lastSpaceWidth s) s)) s"
      using take_is_prefix prefix_order.trans by blast
    with False show ?thesis
      by (subst TrimRightSpace.simps) simp
  qed
qed

lemma spaceWidth_prefix: "spaceWidth s = 0 \<Longrightarrow> prefix t s \<Longrightarrow> spaceWidth t = 0"
  unfolding spaceWidth_0_iff using prefix_order.trans by blast

lemma TrimSpace_trimmed:
  "spaceWidth (TrimSpace s) = 0 \<and> lastSpaceWidth (TrimSpace s) = 0 \<and> sublist (TrimSpace s) s"
proof -
  have "spaceWidth (TrimSpace s) = 0"
    unfolding TrimSpace_def
    using spaceWidth_TrimLeftSpace prefix_TrimRightSpace by (rule spaceWidth_prefix)
  moreover have "lastSpaceWidth (TrimSpace s) = 0"
    by (simp only: TrimSpace_def lastSpaceWidth_TrimRightSpace)
  moreover have "sublist (TrimSpace s) s"
    unfolding TrimSpace_def
    using prefix_TrimRightSpace [of "TrimLeftSpace s"] suffix_TrimLeftSpace [of s]
    unfolding sublist_altdef' by blast
  ultimately show ?thesis by simp
qed

text \<open>
  An example with white space at both ends: a no-break space and a tab in front, an en quad,
  a line feed and an ideographic space behind.
\<close>

lemma TrimSpace_both_ends:
  "TrimSpace ([CHR 0xC2, CHR 0xA0, CHR 0x09] @ ''a b''
               @ [CHR 0xE2, CHR 0x80, CHR 0x80, CHR 0x0A, CHR 0xE3, CHR 0x80, CHR 0x80]) = ''a b''"
  by (simp add: TrimSpace_def spaceWidth_def lastSpaceWidth_def utf8_White_Space suffix_to_prefix)





text \<open>
  \<open>ApplyOptions\<close> runs the directives from the first to the last on the options at
  \<open>this\<close>, changes nothing else in the store, and returns \<open>this\<close>.
\<close>

lemma ApplyOptions_fold:
  "ApplyOptions s this opts = (s(this := fold (\<lambda>opt m. opt m) opts (s this)), this)"
  by (induction opts arbitrary: s) (simp_all add: ApplyToMirror_def)

lemma fold_directives_preserve:
  "(\<And>opt m. opt \<in> set opts \<Longrightarrow> f (opt m) = f m) \<Longrightarrow> f (fold (\<lambda>opt m. opt m) opts m) = f m"
  by (induction opts arbitrary: m) simp_all

lemma fold_directives_last_write:
  assumes "\<And>m. f (d m) = v"
    and "\<And>opt m. opt \<in> set later \<Longrightarrow> f (opt m) = f m"
  shows "f (fold (\<lambda>opt m. opt m) (earlier @ d # later) m) = v"
  using assms by (simp add: fold_directives_preserve)

text \<open>The three branches of the builder, in terms of the options after the directives.\<close>

lemma newMirrorCondition_Some:
  "newMirrorCondition getConditionOwnerInfo sourceObj (Some c) sourceConditionType opts =
     \<lparr>Type = targetConditionType (mirrorOptAfter sourceConditionType opts),
      Status = Status c,
      ObservedGeneration = 0,
      LastTransitionTime = LastTransitionTime c,
      Reason = Reason c,
      Message = TrimSpace (Message c @ '' (from '' @ getConditionOwnerInfo sourceObj @ '')'')\<rparr>"
  by (simp add: newMirrorCondition_def ApplyOptions_fold)

lemma newMirrorCondition_None:
  "newMirrorCondition getConditionOwnerInfo sourceObj None sourceConditionType opts =
     (if fallbackStatus (mirrorOptAfter sourceConditionType opts) \<noteq> [] then
        \<lparr>Type = targetConditionType (mirrorOptAfter sourceConditionType opts),
         Status = fallbackStatus (mirrorOptAfter sourceConditionType opts),
         ObservedGeneration = 0,
         LastTransitionTime = zeroTime,
         Reason = fallbackReason (mirrorOptAfter sourceConditionType opts),
         Message = fallbackMessage (mirrorOptAfter sourceConditionType opts)\<rparr>
      else
        \<lparr>Type = targetConditionType (mirrorOptAfter sourceConditionType opts),
         Status = ConditionUnknown,
         ObservedGeneration = 0,
         LastTransitionTime = zeroTime,
         Reason = NotYetReportedReason,
         Message = ''Condition '' @ sourceConditionType @ '' not yet reported from ''
                     @ getConditionOwnerInfo sourceObj\<rparr>)"
  by (simp add: newMirrorCondition_def ApplyOptions_fold)

subsection \<open>The three cases of the mirror builder\<close>

text \<open>
  C1. When the source condition is present, the mirror has the target condition type, the
  Status, Reason and LastTransitionTime of the source condition, and as Message the
  trimmed text \<open><message> (from <owner>)\<close>: a segment of that text that has no white
  space rune at its start or at its end.
\<close>

theorem newMirrorCondition_present:
  assumes "condition = Some c"
  shows "Type (newMirrorCondition getConditionOwnerInfo sourceObj condition sourceConditionType opts)
           = targetConditionType (mirrorOptAfter sourceConditionType opts)
       \<and> Status (newMirrorCondition getConditionOwnerInfo sourceObj condition sourceConditionType opts)
           = Status c
       \<and> Reason (newMirrorCondition getConditionOwnerInfo sourceObj condition sourceConditionType opts)
           = Reason c
       \<and> LastTransitionTime
             (newMirrorCondition getConditionOwnerInfo sourceObj condition sourceConditionType opts)
           = LastTransitionTime c
       \<and> Message (newMirrorCondition getConditionOwnerInfo sourceObj condition sourceConditionType opts)
           = TrimSpace (Message c @ '' (from '' @ getConditionOwnerInfo sourceObj @ '')'')
       \<and> spaceWidth
             (Message (newMirrorCondition getConditionOwnerInfo sourceObj condition
                         sourceConditionType opts)) = 0
       \<and> lastSpaceWidth
             (Message (newMirrorCondition getConditionOwnerInfo sourceObj condition
                         sourceConditionType opts)) = 0
       \<and> sublist
             (Message (newMirrorCondition getConditionOwnerInfo sourceObj condition
                         sourceConditionType opts))
             (Message c @ '' (from '' @ getConditionOwnerInfo sourceObj @ '')'')"
  using assms
    TrimSpace_trimmed [of "Message c @ '' (from '' @ getConditionOwnerInfo sourceObj @ '')''"]
  by (simp add: newMirrorCondition_Some)

theorem newMirrorCondition_present_witness:
  "Type (newMirrorCondition (\<lambda>_. ''Machine/m1'') ()
          (Some \<lparr>Type = ''Ready'', Status = ConditionFalse, ObservedGeneration = 7,
                 LastTransitionTime = Time 42, Reason = ''WaitingForInfra'',
                 Message = ''infra not ready''\<rparr>) ''Ready'' []) = ''Ready''
   \<and> Status (newMirrorCondition (\<lambda>_. ''Machine/m1'') ()
          (Some \<lparr>Type = ''Ready'', Status = ConditionFalse, ObservedGeneration = 7,
                 LastTransitionTime = Time 42, Reason = ''WaitingForInfra'',
                 Message = ''infra not ready''\<rparr>) ''Ready'' []) = ''False''
   \<and> Reason (newMirrorCondition (\<lambda>_. ''Machine/m1'') ()
          (Some \<lparr>Type = ''Ready'', Status = ConditionFalse, ObservedGeneration = 7,
                 LastTransitionTime = Time 42, Reason = ''WaitingForInfra'',
                 Message = ''infra not ready''\<rparr>) ''Ready'' []) = ''WaitingForInfra''
   \<and> LastTransitionTime (newMirrorCondition (\<lambda>_. ''Machine/m1'') ()
          (Some \<lparr>Type = ''Ready'', Status = ConditionFalse, ObservedGeneration = 7,
                 LastTransitionTime = Time 42, Reason = ''WaitingForInfra'',
                 Message = ''infra not ready''\<rparr>) ''Ready'' []) = Time 42
   \<and> Message (newMirrorCondition (\<lambda>_. ''Machine/m1'') ()
          (Some \<lparr>Type = ''Ready'', Status = ConditionFalse, ObservedGeneration = 7,
                 LastTransitionTime = Time 42, Reason = ''WaitingForInfra'',
                 Message = ''infra not ready''\<rparr>) ''Ready'' [])
       = ''infra not ready (from Machine/m1)''
   \<and> Message (newMirrorCondition (\<lambda>_. ''Machine/m1'') ()
          (Some \<lparr>Type = ''Ready'', Status = ConditionTrue, ObservedGeneration = 0,
                 LastTransitionTime = Time 0, Reason = ''Up'', Message = []\<rparr>) ''Ready'' [])
       = ''(from Machine/m1)''
   \<and> Message (newMirrorCondition (\<lambda>_. ''Machine/m1'') ()
          (Some \<lparr>Type = ''Ready'', Status = ConditionTrue, ObservedGeneration = 0,
                 LastTransitionTime = Time 0, Reason = ''Up'',
                 Message = [CHR 0x09, CHR 0xC2, CHR 0xA0] @ ''up '' @ [CHR 0x0A]\<rparr>)
          ''Ready'' [])
       = ''up '' @ [CHR 0x0A] @ '' (from Machine/m1)''"
proof -
  let ?c = "\<lparr>Type = ''Ready'', Status = ConditionFalse, ObservedGeneration = 7,
             LastTransitionTime = Time 42, Reason = ''WaitingForInfra'',
             Message = ''infra not ready''\<rparr>"
  let ?e = "\<lparr>Type = ''Ready'', Status = ConditionTrue, ObservedGeneration = 0,
             LastTransitionTime = Time 0, Reason = ''Up'', Message = []\<rparr>"
  let ?p = "\<lparr>Type = ''Ready'', Status = ConditionTrue, ObservedGeneration = 0,
             LastTransitionTime = Time 0, Reason = ''Up'',
             Message = [CHR 0x09, CHR 0xC2, CHR 0xA0] @ ''up '' @ [CHR 0x0A]\<rparr>"
  have t: "TrimSpace ''infra not ready (from Machine/m1)'' = ''infra not ready (from Machine/m1)''"
    by (simp add: TrimSpace_def spaceWidth_def lastSpaceWidth_def utf8_White_Space
          suffix_to_prefix)
  have te: "TrimSpace '' (from Machine/m1)'' = ''(from Machine/m1)''"
    by (simp add: TrimSpace_def spaceWidth_def lastSpaceWidth_def utf8_White_Space
          suffix_to_prefix)
  have tp: "TrimSpace ([CHR 0x09, CHR 0xC2, CHR 0xA0] @ ''up '' @ [CHR 0x0A]
                        @ '' (from Machine/m1)'')
              = ''up '' @ [CHR 0x0A] @ '' (from Machine/m1)''"
    by (simp add: TrimSpace_def spaceWidth_def lastSpaceWidth_def utf8_White_Space
          suffix_to_prefix)
  have first: "Type (newMirrorCondition (\<lambda>_. ''Machine/m1'') () (Some ?c) ''Ready'' []) = ''Ready''
      \<and> Status (newMirrorCondition (\<lambda>_. ''Machine/m1'') () (Some ?c) ''Ready'' []) = ''False''
      \<and> Reason (newMirrorCondition (\<lambda>_. ''Machine/m1'') () (Some ?c) ''Ready'' [])
          = ''WaitingForInfra''
      \<and> LastTransitionTime (newMirrorCondition (\<lambda>_. ''Machine/m1'') () (Some ?c) ''Ready'' [])
          = Time 42
      \<and> Message (newMirrorCondition (\<lambda>_. ''Machine/m1'') () (Some ?c) ''Ready'' [])
          = ''infra not ready (from Machine/m1)''"
    using newMirrorCondition_present
            [where condition = "Some ?c" and c = ?c
               and getConditionOwnerInfo = "\<lambda>_. ''Machine/m1''" and sourceObj = "()"
               and sourceConditionType = "''Ready''" and opts = "[]"] t
    by (simp add: zeroMirrorOptions_def ConditionFalse_def)
  have empty: "Message (newMirrorCondition (\<lambda>_. ''Machine/m1'') () (Some ?e) ''Ready'' [])
                 = ''(from Machine/m1)''"
    using newMirrorCondition_present
            [where condition = "Some ?e" and c = ?e
               and getConditionOwnerInfo = "\<lambda>_. ''Machine/m1''" and sourceObj = "()"
               and sourceConditionType = "''Ready''" and opts = "[]"] te
    by simp
  have padded: "Message (newMirrorCondition (\<lambda>_. ''Machine/m1'') () (Some ?p) ''Ready'' [])
                 = ''up '' @ [CHR 0x0A] @ '' (from Machine/m1)''"
    using newMirrorCondition_present
            [where condition = "Some ?p" and c = ?p
               and getConditionOwnerInfo = "\<lambda>_. ''Machine/m1''" and sourceObj = "()"
               and sourceConditionType = "''Ready''" and opts = "[]"] tp
    by simp
  show ?thesis
    using first empty padded by blast
qed

text \<open>
  C2. When the source condition is absent and the fallback status is not empty, the mirror
  has the target condition type and the fallback status, reason and message as they are
  (no owner is appended to the message); its LastTransitionTime is the zero value.
\<close>

theorem newMirrorCondition_fallback:
  assumes "condition = None"
    and "fallbackStatus (mirrorOptAfter sourceConditionType opts) \<noteq> []"
  shows "Type (newMirrorCondition getConditionOwnerInfo sourceObj condition sourceConditionType opts)
           = targetConditionType (mirrorOptAfter sourceConditionType opts)
       \<and> Status (newMirrorCondition getConditionOwnerInfo sourceObj condition sourceConditionType opts)
           = fallbackStatus (mirrorOptAfter sourceConditionType opts)
       \<and> Reason (newMirrorCondition getConditionOwnerInfo sourceObj condition sourceConditionType opts)
           = fallbackReason (mirrorOptAfter sourceConditionType opts)
       \<and> Message (newMirrorCondition getConditionOwnerInfo sourceObj condition sourceConditionType opts)
           = fallbackMessage (mirrorOptAfter sourceConditionType opts)
       \<and> LastTransitionTime
             (newMirrorCondition getConditionOwnerInfo sourceObj condition sourceConditionType opts)
           = zeroTime"
  using assms by (simp add: newMirrorCondition_None)

theorem newMirrorCondition_fallback_witness:
  "Type (newMirrorCondition (\<lambda>_. ''Machine/m1'') () None ''Ready''
          [TargetConditionType ''InfraReady'',
           FallbackCondition ConditionTrue ''Provisioned'' ''infra is up'']) = ''InfraReady''
   \<and> Status (newMirrorCondition (\<lambda>_. ''Machine/m1'') () None ''Ready''
          [TargetConditionType ''InfraReady'',
           FallbackCondition ConditionTrue ''Provisioned'' ''infra is up'']) = ''True''
   \<and> Reason (newMirrorCondition (\<lambda>_. ''Machine/m1'') () None ''Ready''
          [TargetConditionType ''InfraReady'',
           FallbackCondition ConditionTrue ''Provisioned'' ''infra is up'']) = ''Provisioned''
   \<and> Message (newMirrorCondition (\<lambda>_. ''Machine/m1'') () None ''Ready''
          [TargetConditionType ''InfraReady'',
           FallbackCondition ConditionTrue ''Provisioned'' ''infra is up'']) = ''infra is up''
   \<and> LastTransitionTime (newMirrorCondition (\<lambda>_. ''Machine/m1'') () None ''Ready''
          [TargetConditionType ''InfraReady'',
           FallbackCondition ConditionTrue ''Provisioned'' ''infra is up'']) = Time 0"
  using newMirrorCondition_fallback
          [where condition = None and sourceConditionType = "''Ready''"
             and opts = "[TargetConditionType ''InfraReady'',
                          FallbackCondition ConditionTrue ''Provisioned'' ''infra is up'']"
             and getConditionOwnerInfo = "\<lambda>_. ''Machine/m1''" and sourceObj = "()"]
  by (simp add: zeroMirrorOptions_def TargetConditionType_def FallbackCondition_def
        ConditionTrue_def zeroTime_def)

text \<open>
  C3. When the source condition is absent and the fallback status is empty, the mirror has
  the target condition type, status Unknown, the reason \<open>NotYetReported\<close>, the message
  \<open>Condition <sourceConditionType> not yet reported from <owner>\<close>, and the zero value as
  LastTransitionTime.
\<close>

theorem newMirrorCondition_not_yet_reported:
  assumes "condition = None"
    and "fallbackStatus (mirrorOptAfter sourceConditionType opts) = []"
  shows "Type (newMirrorCondition getConditionOwnerInfo sourceObj condition sourceConditionType opts)
           = targetConditionType (mirrorOptAfter sourceConditionType opts)
       \<and> Status (newMirrorCondition getConditionOwnerInfo sourceObj condition sourceConditionType opts)
           = ConditionUnknown
       \<and> Reason (newMirrorCondition getConditionOwnerInfo sourceObj condition sourceConditionType opts)
           = NotYetReportedReason
       \<and> NotYetReportedReason = ''NotYetReported''
       \<and> Message (newMirrorCondition getConditionOwnerInfo sourceObj condition sourceConditionType opts)
           = ''Condition '' @ sourceConditionType @ '' not yet reported from ''
               @ getConditionOwnerInfo sourceObj
       \<and> LastTransitionTime
             (newMirrorCondition getConditionOwnerInfo sourceObj condition sourceConditionType opts)
           = zeroTime"
  using assms by (simp add: newMirrorCondition_None NotYetReportedReason_def)

theorem newMirrorCondition_not_yet_reported_witness:
  "Type (newMirrorCondition (\<lambda>_. ''Machine/m1'') () None ''Ready'' []) = ''Ready''
   \<and> Status (newMirrorCondition (\<lambda>_. ''Machine/m1'') () None ''Ready'' []) = ''Unknown''
   \<and> Reason (newMirrorCondition (\<lambda>_. ''Machine/m1'') () None ''Ready'' []) = ''NotYetReported''
   \<and> Message (newMirrorCondition (\<lambda>_. ''Machine/m1'') () None ''Ready'' [])
       = ''Condition Ready not yet reported from Machine/m1''
   \<and> LastTransitionTime (newMirrorCondition (\<lambda>_. ''Machine/m1'') () None ''Ready'' []) = Time 0"
  using newMirrorCondition_not_yet_reported
          [where condition = None and sourceConditionType = "''Ready''" and opts = "[]"
             and getConditionOwnerInfo = "\<lambda>_. ''Machine/m1''" and sourceObj = "()"]
  by (simp add: zeroMirrorOptions_def ConditionUnknown_def zeroTime_def)

subsection \<open>Mirroring from an unstructured object\<close>

text \<open>
  C4. When \<open>UnstructuredGet\<close> returns an error, \<open>SetMirrorConditionFromUnstructured\<close>
  returns that same error and the target object is as it was (\<open>Set\<close> is not called).
  When it returns no error, no error is returned and the target object is the result of
  \<open>Set\<close> with the mirror of the decoded condition.
\<close>

theorem SetMirrorConditionFromUnstructured_error_or_write:
  "(UnstructuredGet sourceObj sourceConditionType = (condition, Some err) \<longrightarrow>
      SetMirrorConditionFromUnstructured getConditionOwnerInfo UnstructuredGet SetCondition
          sourceObj targetObj sourceConditionType opts
        = (Some err, targetObj))
   \<and> (UnstructuredGet sourceObj sourceConditionType = (condition, None) \<longrightarrow>
      SetMirrorConditionFromUnstructured getConditionOwnerInfo UnstructuredGet SetCondition
          sourceObj targetObj sourceConditionType opts
        = (None,
           SetCondition targetObj
             (newMirrorCondition getConditionOwnerInfo sourceObj condition
                sourceConditionType opts)))"
  by (simp add: SetMirrorConditionFromUnstructured_def)

theorem SetMirrorConditionFromUnstructured_error_or_write_witness:
  "SetMirrorConditionFromUnstructured (\<lambda>_. ''Machine/m1'')
       (\<lambda>_ _. (None, Some ''conditions: not a list'')) (\<lambda>cs c. cs @ [c])
       () ([] :: Condition list) ''Ready'' []
     = (Some ''conditions: not a list'', [])
   \<and> SetMirrorConditionFromUnstructured (\<lambda>_. ''Machine/m1'')
       (\<lambda>_ _. (None, None :: string option)) (\<lambda>cs c. cs @ [c])
       () ([] :: Condition list) ''Ready'' []
     = (None, [newMirrorCondition (\<lambda>_. ''Machine/m1'') () None ''Ready'' []])"
  using SetMirrorConditionFromUnstructured_error_or_write
          [where UnstructuredGet = "\<lambda>_ _. (None, Some ''conditions: not a list'')"
             and sourceObj = "()" and sourceConditionType = "''Ready''"
             and condition = None and err = "''conditions: not a list''"
             and getConditionOwnerInfo = "\<lambda>_. ''Machine/m1''"
             and SetCondition = "\<lambda>cs c. cs @ [c]" and targetObj = "[] :: Condition list"
             and opts = "[]"]
        SetMirrorConditionFromUnstructured_error_or_write
          [where UnstructuredGet = "\<lambda>_ _. (None, None :: string option)"
             and sourceObj = "()" and sourceConditionType = "''Ready''"
             and condition = None
             and getConditionOwnerInfo = "\<lambda>_. ''Machine/m1''"
             and SetCondition = "\<lambda>cs c. cs @ [c]" and targetObj = "[] :: Condition list"
             and opts = "[]"]
  by simp

subsection \<open>The target condition type\<close>

text \<open>
  C5. Whatever the source condition is (present or absent, with or without a fallback), the
  Type of the mirror is the target condition type of the options after the directives.
  It is the source condition type when no directive changes the target condition type, and
  it is \<open>t\<close> when a directive sets it to \<open>t\<close> and no later directive changes it.
\<close>

theorem newMirrorCondition_target_type:
  "Type (newMirrorCondition getConditionOwnerInfo sourceObj condition sourceConditionType opts)
     = targetConditionType (mirrorOptAfter sourceConditionType opts)
   \<and> ((\<forall>opt \<in> set opts. \<forall>m. targetConditionType (opt m) = targetConditionType m) \<longrightarrow>
        Type (newMirrorCondition getConditionOwnerInfo sourceObj condition sourceConditionType opts)
          = sourceConditionType)
   \<and> ((\<forall>m. targetConditionType (d m) = t)
        \<and> (\<forall>opt \<in> set later. \<forall>m. targetConditionType (opt m) = targetConditionType m) \<longrightarrow>
        Type (newMirrorCondition getConditionOwnerInfo sourceObj condition sourceConditionType
                (earlier @ d # later))
          = t)"
proof -
  have ty: "Type (newMirrorCondition getConditionOwnerInfo sourceObj condition
                    sourceConditionType os)
              = targetConditionType (mirrorOptAfter sourceConditionType os)" for os
    by (cases condition) (simp_all add: newMirrorCondition_Some newMirrorCondition_None)
  have dflt: "targetConditionType (mirrorOptAfter sourceConditionType opts) = sourceConditionType"
    if "\<forall>opt \<in> set opts. \<forall>m. targetConditionType (opt m) = targetConditionType m"
    using that by (simp add: fold_directives_preserve [where f = targetConditionType])
  have over: "targetConditionType (mirrorOptAfter sourceConditionType (earlier @ d # later)) = t"
    if a: "\<forall>m. targetConditionType (d m) = t"
      and b: "\<forall>opt \<in> set later. \<forall>m. targetConditionType (opt m) = targetConditionType m"
  proof (rule fold_directives_last_write [where f = targetConditionType])
    show "targetConditionType (d m) = t" for m
      using a by simp
    show "targetConditionType (opt m) = targetConditionType m" if "opt \<in> set later" for opt m
      using b that by simp
  qed
  show ?thesis
    unfolding ty using dflt over by blast
qed

theorem newMirrorCondition_target_type_witness:
  "Type (newMirrorCondition (\<lambda>_. ''Machine/m1'') () None ''Ready''
          [FallbackCondition ConditionTrue ''Provisioned'' ''infra is up'']) = ''Ready''
   \<and> Type (newMirrorCondition (\<lambda>_. ''Machine/m1'') () None ''Ready''
          ([TargetConditionType ''Other''] @ TargetConditionType ''InfraReady''
             # [FallbackCondition ConditionTrue ''Provisioned'' ''infra is up'']))
       = ''InfraReady''"
proof -
  have keep: "\<forall>opt \<in> set [FallbackCondition ConditionTrue ''Provisioned'' ''infra is up''].
                \<forall>m. targetConditionType (opt m) = targetConditionType m"
    by (simp add: FallbackCondition_def)
  have wr: "\<forall>m. targetConditionType (TargetConditionType ''InfraReady'' m) = ''InfraReady''"
    by (simp add: TargetConditionType_def)
  show ?thesis
    using keep wr
      newMirrorCondition_target_type
        [where getConditionOwnerInfo = "\<lambda>_. ''Machine/m1''" and sourceObj = "()"
           and condition = None and sourceConditionType = "''Ready''"
           and opts = "[FallbackCondition ConditionTrue ''Provisioned'' ''infra is up'']"
           and d = "TargetConditionType ''InfraReady''" and t = "''InfraReady''"
           and earlier = "[TargetConditionType ''Other'']"
           and later = "[FallbackCondition ConditionTrue ''Provisioned'' ''infra is up'']"]
    by blast
qed

subsection \<open>Applying the directives\<close>

text \<open>
  C6. \<open>ApplyOptions\<close> applies the directives to the options it is called on from the first
  to the last and returns the reference it was called on; nothing else in the store
  changes. So a field \<open>f\<close> that a directive sets to \<open>v\<close> has the value \<open>v\<close> in the end
  when no later directive changes it, whatever the earlier directives wrote.
\<close>

theorem ApplyOptions_last_write_wins:
  "ApplyOptions s this opts = (s(this := fold (\<lambda>opt m. opt m) opts (s this)), this)
   \<and> snd (ApplyOptions s this opts) = this
   \<and> fst (ApplyOptions s this (opts @ [opt])) this = opt (fst (ApplyOptions s this opts) this)
   \<and> ((\<forall>m. f (d m) = v) \<and> (\<forall>opt \<in> set later. \<forall>m. f (opt m) = f m) \<longrightarrow>
        f (fst (ApplyOptions s this (earlier @ d # later)) this) = v)"
proof -
  have last: "f (fold (\<lambda>opt m. opt m) (earlier @ d # later) (s this)) = v"
    if a: "\<forall>m. f (d m) = v" and b: "\<forall>opt \<in> set later. \<forall>m. f (opt m) = f m"
  proof (rule fold_directives_last_write)
    show "f (d m) = v" for m
      using a by simp
    show "f (opt m) = f m" if "opt \<in> set later" for opt m
      using b that by simp
  qed
  show ?thesis
    using last by (simp add: ApplyOptions_fold)
qed

theorem ApplyOptions_last_write_wins_witness:
  "ApplyOptions (\<lambda>_. zeroMirrorOptions) 0
       [TargetConditionType ''A'', FallbackCondition ConditionTrue ''R'' ''M'',
        TargetConditionType ''B'']
     = ((\<lambda>_. zeroMirrorOptions)
          (0 := \<lparr>targetConditionType = ''B'', fallbackStatus = ''True'',
                  fallbackReason = ''R'', fallbackMessage = ''M''\<rparr>), 0)
   \<and> targetConditionType
         (fst (ApplyOptions (\<lambda>_. zeroMirrorOptions) 0
                 ([TargetConditionType ''A''] @ TargetConditionType ''B''
                    # [FallbackCondition ConditionTrue ''R'' ''M''])) 0) = ''B''"
proof -
  have keep: "\<forall>opt \<in> set [FallbackCondition ConditionTrue ''R'' ''M''].
                \<forall>m. targetConditionType (opt m) = targetConditionType m"
    by (simp add: FallbackCondition_def)
  have wr: "\<forall>m. targetConditionType (TargetConditionType ''B'' m) = ''B''"
    by (simp add: TargetConditionType_def)
  have run: "fold (\<lambda>opt m. opt m)
               [TargetConditionType ''A'', FallbackCondition ConditionTrue ''R'' ''M'',
                TargetConditionType ''B''] zeroMirrorOptions
             = \<lparr>targetConditionType = ''B'', fallbackStatus = ''True'',
                 fallbackReason = ''R'', fallbackMessage = ''M''\<rparr>"
    by (simp add: zeroMirrorOptions_def TargetConditionType_def FallbackCondition_def
          ConditionTrue_def)
  have first: "ApplyOptions (\<lambda>_. zeroMirrorOptions) 0
       [TargetConditionType ''A'', FallbackCondition ConditionTrue ''R'' ''M'',
        TargetConditionType ''B'']
     = ((\<lambda>_. zeroMirrorOptions)
          (0 := \<lparr>targetConditionType = ''B'', fallbackStatus = ''True'',
                  fallbackReason = ''R'', fallbackMessage = ''M''\<rparr>), 0)"
  proof -
    have "ApplyOptions (\<lambda>_. zeroMirrorOptions) 0
            [TargetConditionType ''A'', FallbackCondition ConditionTrue ''R'' ''M'',
             TargetConditionType ''B'']
          = ((\<lambda>_. zeroMirrorOptions)
               (0 := fold (\<lambda>opt m. opt m)
                       [TargetConditionType ''A'', FallbackCondition ConditionTrue ''R'' ''M'',
                        TargetConditionType ''B''] ((\<lambda>_. zeroMirrorOptions) 0)), 0)"
      by (rule conjunct1 [OF ApplyOptions_last_write_wins])
    then show ?thesis
      by (simp only: run)
  qed
  have second: "targetConditionType
         (fst (ApplyOptions (\<lambda>_. zeroMirrorOptions) 0
                 ([TargetConditionType ''A''] @ TargetConditionType ''B''
                    # [FallbackCondition ConditionTrue ''R'' ''M''])) 0) = ''B''"
    using keep wr
      ApplyOptions_last_write_wins
        [where s = "\<lambda>_. zeroMirrorOptions" and this = 0 and f = targetConditionType
           and d = "TargetConditionType ''B''" and v = "''B''"
           and earlier = "[TargetConditionType ''A'']"
           and later = "[FallbackCondition ConditionTrue ''R'' ''M'']"]
    by blast
  show ?thesis
    using first second by (rule conjI)
qed

subsection \<open>Fields the builder leaves unset\<close>

text \<open>
  C7. The ObservedGeneration of the mirror is the zero value in each of the three cases;
  the ObservedGeneration of a present source condition is not copied.
\<close>

theorem newMirrorCondition_ObservedGeneration_unset:
  "ObservedGeneration
     (newMirrorCondition getConditionOwnerInfo sourceObj condition sourceConditionType opts) = 0"
  by (cases condition) (simp_all add: newMirrorCondition_Some newMirrorCondition_None)

theorem newMirrorCondition_ObservedGeneration_unset_witness:
  "ObservedGeneration
     (newMirrorCondition (\<lambda>_. ''Machine/m1'') ()
        (Some \<lparr>Type = ''Ready'', Status = ConditionFalse, ObservedGeneration = 7,
               LastTransitionTime = Time 42, Reason = ''WaitingForInfra'',
               Message = ''infra not ready''\<rparr>) ''Ready'' []) = 0
   \<and> ObservedGeneration
     (newMirrorCondition (\<lambda>_. ''Machine/m1'') () None ''Ready''
        [FallbackCondition ConditionTrue ''Provisioned'' ''infra is up'']) = 0
   \<and> ObservedGeneration (newMirrorCondition (\<lambda>_. ''Machine/m1'') () None ''Ready'' []) = 0"
  by (simp only: newMirrorCondition_ObservedGeneration_unset)

subsection \<open>Determinism and totality of the builder\<close>




subsection \<open>What selects the fallback\<close>

text \<open>
  C9. When the source condition is absent, the fallback condition is built exactly when the
  fallback status is not empty. With an empty fallback status the placeholder is built,
  and a configured fallback reason and message do not appear in it: a fallback directive
  with an empty status gives the same mirror as no fallback directive.
\<close>

theorem newMirrorCondition_fallback_iff_status:
  assumes "condition = None"
  shows "newMirrorCondition getConditionOwnerInfo sourceObj condition sourceConditionType opts
           = (if fallbackStatus (mirrorOptAfter sourceConditionType opts) \<noteq> [] then
                \<lparr>Type = targetConditionType (mirrorOptAfter sourceConditionType opts),
                 Status = fallbackStatus (mirrorOptAfter sourceConditionType opts),
                 ObservedGeneration = 0,
                 LastTransitionTime = zeroTime,
                 Reason = fallbackReason (mirrorOptAfter sourceConditionType opts),
                 Message = fallbackMessage (mirrorOptAfter sourceConditionType opts)\<rparr>
              else
                \<lparr>Type = targetConditionType (mirrorOptAfter sourceConditionType opts),
                 Status = ConditionUnknown,
                 ObservedGeneration = 0,
                 LastTransitionTime = zeroTime,
                 Reason = NotYetReportedReason,
                 Message = ''Condition '' @ sourceConditionType @ '' not yet reported from ''
                             @ getConditionOwnerInfo sourceObj\<rparr>)
       \<and> newMirrorCondition getConditionOwnerInfo sourceObj condition sourceConditionType
             (opts @ [FallbackCondition [] reason message])
           = \<lparr>Type = targetConditionType (mirrorOptAfter sourceConditionType opts),
              Status = ConditionUnknown,
              ObservedGeneration = 0,
              LastTransitionTime = zeroTime,
              Reason = NotYetReportedReason,
              Message = ''Condition '' @ sourceConditionType @ '' not yet reported from ''
                          @ getConditionOwnerInfo sourceObj\<rparr>"
  using assms by (simp add: newMirrorCondition_None FallbackCondition_def)

theorem newMirrorCondition_fallback_iff_status_witness:
  "newMirrorCondition (\<lambda>_. ''Machine/m1'') () None ''Ready''
       ([] @ [FallbackCondition [] ''Provisioned'' ''infra is up''])
     = \<lparr>Type = ''Ready'', Status = ''Unknown'', ObservedGeneration = 0,
        LastTransitionTime = Time 0, Reason = ''NotYetReported'',
        Message = ''Condition Ready not yet reported from Machine/m1''\<rparr>
   \<and> newMirrorCondition (\<lambda>_. ''Machine/m1'') () None ''Ready''
       [FallbackCondition ''True'' [] []]
     = \<lparr>Type = ''Ready'', Status = ''True'', ObservedGeneration = 0,
        LastTransitionTime = Time 0, Reason = [], Message = []\<rparr>"
proof -
  have absent: "(None :: Condition option) = None"
    by simp
  have placeholder: "newMirrorCondition (\<lambda>_. ''Machine/m1'') () None ''Ready''
       ([] @ [FallbackCondition [] ''Provisioned'' ''infra is up''])
     = \<lparr>Type = ''Ready'', Status = ''Unknown'', ObservedGeneration = 0,
        LastTransitionTime = Time 0, Reason = ''NotYetReported'',
        Message = ''Condition Ready not yet reported from Machine/m1''\<rparr>"
    using newMirrorCondition_fallback_iff_status
            [where condition = None
               and getConditionOwnerInfo = "\<lambda>_. ''Machine/m1''" and sourceObj = "()"
               and sourceConditionType = "''Ready''" and opts = "[]"
               and reason = "''Provisioned''" and message = "''infra is up''",
             OF absent]
    by (simp add: zeroMirrorOptions_def ConditionUnknown_def zeroTime_def
          NotYetReportedReason_def)
  have fallback: "newMirrorCondition (\<lambda>_. ''Machine/m1'') () None ''Ready''
       [FallbackCondition ''True'' [] []]
     = \<lparr>Type = ''Ready'', Status = ''True'', ObservedGeneration = 0,
        LastTransitionTime = Time 0, Reason = [], Message = []\<rparr>"
    using newMirrorCondition_fallback_iff_status
            [where condition = None
               and getConditionOwnerInfo = "\<lambda>_. ''Machine/m1''" and sourceObj = "()"
               and sourceConditionType = "''Ready''"
               and opts = "[FallbackCondition ''True'' [] []]"
               and reason = "[]" and message = "[]",
             OF absent]
    by (simp add: zeroMirrorOptions_def FallbackCondition_def zeroTime_def)
  show ?thesis
    using placeholder fallback by (rule conjI)
qed

subsection \<open>Results of the status helper\<close>

text \<open>
  C10. \<open>BoolToStatus\<close> gives the status True for true and the status False for false;
  these are its only results, and the status Unknown is not among them.
\<close>

theorem BoolToStatus_total:
  "BoolToStatus True = ConditionTrue
   \<and> BoolToStatus False = ConditionFalse
   \<and> (\<forall>status. BoolToStatus status = ConditionTrue \<or> BoolToStatus status = ConditionFalse)
   \<and> (\<forall>status. BoolToStatus status \<noteq> ConditionUnknown)
   \<and> ConditionTrue \<noteq> ConditionFalse"
  by (simp add: BoolToStatus_def ConditionTrue_def ConditionFalse_def ConditionUnknown_def)

theorem BoolToStatus_total_witness:
  "BoolToStatus True = ''True'' \<and> BoolToStatus False = ''False''"
  using BoolToStatus_total by (simp add: ConditionTrue_def ConditionFalse_def)

end
